theory Spec2Isabelle
  imports Main
begin

section \<open>The FemtoFiber laser driver (instrumental/drivers/lasers/femto_ferb.py)\<close>

text \<open>
  The driver is a thin adapter over a VISA instrument object. The VISA library is not part
  of the repository, so the model records the calls the driver makes on it (a trace of
  events) and takes the lines the instrument hands back as a parameter.
\<close>

subsection \<open>Python values\<close>

text \<open>
  The values that reach the driver's methods and come back from them: \<open>None\<close>, booleans,
  unbounded integers and byte strings. Arguments of other types are treated further down.
\<close>

datatype pyval = PyNone | PyBool bool | PyInt int | PyStr string

datatype error =
    InstrumentTypeError
  | KeyError string
  | ValueError string
  | TypeError
  | UnicodeEncodeError

text \<open>Python's \<open>==\<close>: a bool is an int (\<open>True == 1\<close>), values of unrelated types differ.\<close>

fun py_eq :: "pyval \<Rightarrow> pyval \<Rightarrow> bool" where
  "py_eq PyNone PyNone = True"
| "py_eq (PyBool a) (PyBool b) = (a = b)"
| "py_eq (PyBool a) (PyInt i) = ((if a then 1 else 0) = i)"
| "py_eq (PyInt i) (PyBool b) = (i = (if b then 1 else 0))"
| "py_eq (PyInt i) (PyInt j) = (i = j)"
| "py_eq (PyStr s) (PyStr t) = (s = t)"
| "py_eq _ _ = False"

definition digit_char :: "nat \<Rightarrow> char" where
  "digit_char d = ''0123456789'' ! d"

fun str_nat :: "nat \<Rightarrow> string" where
  "str_nat n = (if n < 10 then [digit_char n] else str_nat (n div 10) @ [digit_char (n mod 10)])"

declare str_nat.simps [simp del]

text \<open>What \<open>'{}'.format(v)\<close> puts in place of the braces: \<open>str(v)\<close>.\<close>

fun py_str :: "pyval \<Rightarrow> string" where
  "py_str PyNone = ''None''"
| "py_str (PyBool b) = (if b then ''True'' else ''False'')"
| "py_str (PyInt i) = (if i < 0 then CHR ''-'' # str_nat (nat (- i)) else str_nat (nat i))"
| "py_str (PyStr s) = s"

text \<open>
  \<open>int(s)\<close> on a string: surrounding whitespace is dropped, an optional sign, then decimal
  digits; anything else raises \<open>ValueError\<close>.
\<close>

definition is_space :: "char \<Rightarrow> bool" where
  "is_space c = (c \<in> set [CHR '' '', CHR 0x09, CHR 0x0A, CHR 0x0B, CHR 0x0C, CHR 0x0D])"

definition strip :: "string \<Rightarrow> string" where
  "strip s = rev (dropWhile is_space (rev (dropWhile is_space s)))"

definition digit_val :: "char \<Rightarrow> nat option" where
  "digit_val c = map_of (zip ''0123456789'' [0, 1, 2, 3, 4, 5, 6, 7, 8, 9]) c"

fun nat_of_digits :: "nat \<Rightarrow> string \<Rightarrow> nat option" where
  "nat_of_digits acc [] = Some acc"
| "nat_of_digits acc (c # cs) =
     (case digit_val c of None \<Rightarrow> None | Some d \<Rightarrow> nat_of_digits (10 * acc + d) cs)"

definition unsigned_int :: "string \<Rightarrow> string \<Rightarrow> error + nat" where
  "unsigned_int s ds =
     (if ds = [] then Inl (ValueError s)
      else case nat_of_digits 0 ds of None \<Rightarrow> Inl (ValueError s) | Some n \<Rightarrow> Inr n)"

definition py_int :: "string \<Rightarrow> error + int" where
  "py_int s =
     (case strip s of
        [] \<Rightarrow> Inl (ValueError s)
      | c # cs \<Rightarrow>
          if c = CHR ''-'' then
            (case unsigned_int s cs of Inl e \<Rightarrow> Inl e | Inr n \<Rightarrow> Inr (- int n))
          else if c = CHR ''+'' then
            (case unsigned_int s cs of Inl e \<Rightarrow> Inl e | Inr n \<Rightarrow> Inr (int n))
          else
            (case unsigned_int s (c # cs) of Inl e \<Rightarrow> Inl e | Inr n \<Rightarrow> Inr (int n)))"

subsection \<open>The boolean tokens\<close>

definition TRUE :: string where
  "TRUE = ''#t''"

definition FALSE :: string where
  "FALSE = ''#f''"

text \<open>
  \<open>bool_dict = {'#t': True, '#f': False}\<close>, kept as its list of items: the loops of
  \<open>set_control\<close> and \<open>_set_emission\<close> iterate over them, and the queries look a key up.
\<close>

definition bool_dict :: "(string \<times> bool) list" where
  "bool_dict = [(''#t'', True), (''#f'', False)]"

text \<open>\<open>bool_dict[message]\<close>: a missing key raises \<open>KeyError\<close>.\<close>

definition bool_dict_getitem :: "string \<Rightarrow> error + bool" where
  "bool_dict_getitem message =
     (case map_of bool_dict message of None \<Rightarrow> Inl (KeyError message) | Some b \<Rightarrow> Inr b)"

text \<open>
  The loop \<open>for key, item in bool_dict.iteritems(): if item == control: control = key\<close>,
  over a given list of items.
\<close>

fun replace_by_key :: "(string \<times> bool) list \<Rightarrow> pyval \<Rightarrow> pyval" where
  "replace_by_key [] control = control"
| "replace_by_key ((key, item) # items) control =
     replace_by_key items (if py_eq (PyBool item) control then PyStr key else control)"

subsection \<open>The connection\<close>

text \<open>
  Calls on the VISA library, in the order they are made: \<open>visa.instrument(port)\<close>, and on
  the instrument it returns \<open>ask(message)\<close>, \<open>read(termination=t)\<close> and \<open>close()\<close>. An
  instrument is identified by the address it was opened with.
\<close>

datatype event =
    Open pyval
  | Ask pyval string
  | Read pyval string
  | Close pyval

type_synonym trace = "event list"

text \<open>
  The instrument's side: the line that a \<open>read\<close> returns, given the calls made before it.
\<close>

type_synonym device = "trace \<Rightarrow> string"

record FemtoFiber =
  inst :: pyval

definition newline :: string where
  "newline = [CHR 0x0A]"

subsection \<open>The methods\<close>

text \<open>
  Every method takes the handle, the device and the trace so far, and returns its result
  (or the exception it raises) with the trace extended by the calls it made.
\<close>

definition ask :: "FemtoFiber \<Rightarrow> string \<Rightarrow> bool \<Rightarrow> device \<Rightarrow> trace \<Rightarrow> (error + pyval) \<times> trace" where
  "ask self message return_error dev tr =
     (let tr1 = tr @ [Ask (inst self) message];
          message' = dev tr1;
          tr2 = tr1 @ [Read (inst self) newline]
      in if return_error then
           (if message' = ''0'' then
              (case py_int message' of Inl e \<Rightarrow> (Inl e, tr2) | Inr n \<Rightarrow> (Inr (PyInt n), tr2))
            else (Inr (PyStr message'), tr2))
         else (Inr (PyStr message'), tr2))"

text \<open>
  The queries index \<open>bool_dict\<close> with what \<open>_ask\<close> returned, which without \<open>return_error\<close>
  is always the string read.
\<close>

definition lookup_message :: "(error + pyval) \<times> trace \<Rightarrow> (error + bool) \<times> trace" where
  "lookup_message r =
     (case r of
        (Inl e, tr') \<Rightarrow> (Inl e, tr')
      | (Inr (PyStr message), tr') \<Rightarrow> (bool_dict_getitem message, tr')
      | (Inr v, tr') \<Rightarrow> (Inl (KeyError (py_str v)), tr'))"

definition is_control_on :: "FemtoFiber \<Rightarrow> device \<Rightarrow> trace \<Rightarrow> (error + bool) \<times> trace" where
  "is_control_on self dev tr =
     lookup_message (ask self ''(param-ref hw-input-dis)'' False dev tr)"

definition set_control :: "FemtoFiber \<Rightarrow> pyval \<Rightarrow> device \<Rightarrow> trace \<Rightarrow> (error + pyval) \<times> trace" where
  "set_control self control dev tr =
     (let control' = replace_by_key bool_dict control
      in ask self (''(param-set! hw-input-dis '' @ py_str control' @ '')'') True dev tr)"

definition is_on :: "FemtoFiber \<Rightarrow> device \<Rightarrow> trace \<Rightarrow> (error + bool) \<times> trace" where
  "is_on self dev tr =
     lookup_message (ask self ''(param-ref laser:en)'' False dev tr)"

definition set_emission :: "FemtoFiber \<Rightarrow> pyval \<Rightarrow> device \<Rightarrow> trace \<Rightarrow> (error + pyval) \<times> trace" where
  "set_emission self control dev tr =
     (let control' = replace_by_key bool_dict control
      in ask self (''(param-set! laser:en '' @ py_str control' @ '')'') True dev tr)"

definition turn_on :: "FemtoFiber \<Rightarrow> device \<Rightarrow> trace \<Rightarrow> (error + pyval) \<times> trace" where
  "turn_on self dev tr = set_emission self (PyBool True) dev tr"

definition turn_off :: "FemtoFiber \<Rightarrow> device \<Rightarrow> trace \<Rightarrow> (error + pyval) \<times> trace" where
  "turn_off self dev tr = set_emission self (PyBool False) dev tr"

definition close :: "FemtoFiber \<Rightarrow> trace \<Rightarrow> trace" where
  "close self tr = tr @ [Close (inst self)]"

text \<open>
  \<open>__init__(self, port)\<close>: open the instrument, then \<open>self.set_control(True)\<close>, whose
  return value is dropped; an exception from it would leave the constructor.
\<close>

definition init :: "pyval \<Rightarrow> device \<Rightarrow> trace \<Rightarrow> (error + FemtoFiber) \<times> trace" where
  "init port dev tr =
     (let self = \<lparr>inst = port\<rparr>;
          tr1 = tr @ [Open port]
      in case set_control self (PyBool True) dev tr1 of
           (Inl e, tr2) \<Rightarrow> (Inl e, tr2)
         | (Inr _, tr2) \<Rightarrow> (Inr self, tr2))"

text \<open>
  \<open>_instrument(params)\<close>. The dictionary \<open>d\<close> is a list of keyword arguments;
  \<open>FemtoFiber(**d)\<close> needs the keyword \<open>port\<close>.
\<close>

definition instrument :: "(string \<rightharpoonup> pyval) \<Rightarrow> device \<Rightarrow> trace \<Rightarrow> (error + FemtoFiber) \<times> trace" where
  "instrument params dev tr =
     (let d = (case params ''femto_ferb_port'' of
                 Some v \<Rightarrow> [(''port'', v)]
               | None \<Rightarrow> [])
      in if d = [] then (Inl InstrumentTypeError, tr)
         else case map_of d ''port'' of
                None \<Rightarrow> (Inl TypeError, tr)
              | Some port \<Rightarrow> init port dev tr)"

subsection \<open>Arguments of any type\<close>

text \<open>
  Nothing checks the type of \<open>control\<close>, so \<open>set_control\<close> and \<open>_set_emission\<close> can be handed
  any object. Beyond the plain values above these are Python 2 \<open>unicode\<close> strings, given by
  their code points, and every other object (a float, an instance of a class), of which the
  two methods observe three things only: the outcome of \<open>True == v\<close>, the outcome of
  \<open>False == v\<close>, and what \<open>'{}'.format(v)\<close> puts in place of the braces or the exception it
  raises. The float \<open>2.5\<close> is \<open>PyObject False False (Inr ''2.5'')\<close>, the float \<open>1.0\<close> is
  \<open>PyObject True False (Inr ''1.0'')\<close>. Objects whose comparison raises are left out.
\<close>

datatype pyarg =
    Plain pyval
  | PyUnicode "nat list"
  | PyObject bool bool "error + string"

text \<open>\<open>item == control\<close> for a boolean \<open>item\<close>; a \<open>unicode\<close> string equals no boolean.\<close>

fun arg_eq_bool :: "bool \<Rightarrow> pyarg \<Rightarrow> bool" where
  "arg_eq_bool item (Plain v) = py_eq (PyBool item) v"
| "arg_eq_bool item (PyUnicode u) = False"
| "arg_eq_bool item (PyObject eq_true eq_false fmt) = (if item then eq_true else eq_false)"

text \<open>
  What \<open>'...{}'.format(control)\<close> puts in place of the braces. The format string is a byte
  string, so in Python 2 a \<open>unicode\<close> argument is encoded as ASCII, which raises
  \<open>UnicodeEncodeError\<close> on a code point above 127.
\<close>

fun arg_format :: "pyarg \<Rightarrow> error + string" where
  "arg_format (Plain v) = Inr (py_str v)"
| "arg_format (PyUnicode u) =
     (if list_all (\<lambda>c. c < 128) u then Inr (map char_of u) else Inl UnicodeEncodeError)"
| "arg_format (PyObject eq_true eq_false fmt) = fmt"

fun replace_by_key_any :: "(string \<times> bool) list \<Rightarrow> pyarg \<Rightarrow> pyarg" where
  "replace_by_key_any [] control = control"
| "replace_by_key_any ((key, item) # items) control =
     replace_by_key_any items (if arg_eq_bool item control then Plain (PyStr key) else control)"

text \<open>
  \<open>set_control\<close> and \<open>_set_emission\<close> on any argument: an exception raised while the
  command is formatted leaves the method before \<open>_ask\<close> is called.
\<close>

definition set_control_any :: "FemtoFiber \<Rightarrow> pyarg \<Rightarrow> device \<Rightarrow> trace \<Rightarrow> (error + pyval) \<times> trace" where
  "set_control_any self control dev tr =
     (let control' = replace_by_key_any bool_dict control
      in case arg_format control' of
           Inl e \<Rightarrow> (Inl e, tr)
         | Inr s \<Rightarrow> ask self (''(param-set! hw-input-dis '' @ s @ '')'') True dev tr)"

definition set_emission_any :: "FemtoFiber \<Rightarrow> pyarg \<Rightarrow> device \<Rightarrow> trace \<Rightarrow> (error + pyval) \<times> trace" where
  "set_emission_any self control dev tr =
     (let control' = replace_by_key_any bool_dict control
      in case arg_format control' of
           Inl e \<Rightarrow> (Inl e, tr)
         | Inr s \<Rightarrow> ask self (''(param-set! laser:en '' @ s @ '')'') True dev tr)"

subsection \<open>What the calls do on the connection\<close>

text \<open>
  The instrument object belongs to PyVISA, which the driver imports and which is not part of
  the repository. By that library's documentation \<open>ask(message)\<close> is \<open>write(message)\<close>
  followed by \<open>read()\<close>: it sends the command and reads one reply with the instrument's own
  termination, and returns that reply, which \<open>_ask\<close> drops. \<open>read(termination=t)\<close> reads one
  line ended by \<open>t\<close>. A receive carries the termination it was asked for, \<open>None\<close> for the
  instrument's own.
\<close>

datatype wire =
    Connect pyval
  | Send pyval string
  | Recv pyval "string option"
  | Disconnect pyval

fun wire_of :: "event \<Rightarrow> wire list" where
  "wire_of (Open p) = [Connect p]"
| "wire_of (Ask p message) = [Send p message, Recv p None]"
| "wire_of (Read p t) = [Recv p (Some t)]"
| "wire_of (Close p) = [Disconnect p]"

definition on_wire :: "trace \<Rightarrow> wire list" where
  "on_wire tr = concat (map wire_of tr)"

fun is_send :: "wire \<Rightarrow> bool" where
  "is_send (Send p message) = True"
| "is_send w = False"

fun is_recv :: "wire \<Rightarrow> bool" where
  "is_recv (Recv p t) = True"
| "is_recv w = False"

text \<open>A device that answers every \<open>read\<close> with the same line.\<close>

definition always :: "string \<Rightarrow> device" where
  "always line tr = line"

section \<open>Properties\<close>

subsection \<open>What the helpers compute\<close>

lemma py_int_zero: "py_int ''0'' = Inr 0"
  by (simp add: py_int_def strip_def is_space_def unsigned_int_def digit_val_def)

lemma ask_return_error:
  "ask self message True dev tr =
     (Inr (if dev (tr @ [Ask (inst self) message]) = ''0'' then PyInt 0
           else PyStr (dev (tr @ [Ask (inst self) message]))),
      tr @ [Ask (inst self) message, Read (inst self) newline])"
  by (simp add: ask_def Let_def py_int_zero)

lemma ask_plain:
  "ask self message False dev tr =
     (Inr (PyStr (dev (tr @ [Ask (inst self) message]))),
      tr @ [Ask (inst self) message, Read (inst self) newline])"
  by (simp add: ask_def Let_def)

lemma replace_by_key_True: "replace_by_key bool_dict (PyBool True) = PyStr ''#t''"
  by (simp add: bool_dict_def)

lemma replace_by_key_False: "replace_by_key bool_dict (PyBool False) = PyStr ''#f''"
  by (simp add: bool_dict_def)

lemma replace_by_key_unequal:
  "\<not> py_eq (PyBool True) v \<Longrightarrow> \<not> py_eq (PyBool False) v \<Longrightarrow> replace_by_key bool_dict v = v"
  by (simp add: bool_dict_def)

text \<open>
  The order in which a Python 2 dictionary hands out its items is not fixed by the source;
  the loop gives the same value in either order.
\<close>

lemma replace_by_key_order: "replace_by_key (rev bool_dict) v = replace_by_key bool_dict v"
  by (cases v) (auto simp: bool_dict_def)

lemma bool_dict_getitem_cases:
  "bool_dict_getitem m =
     (if m = ''#t'' then Inr True else if m = ''#f'' then Inr False else Inl (KeyError m))"
  by (simp add: bool_dict_getitem_def bool_dict_def)

lemma query_eq:
  "lookup_message (ask self message False dev tr) =
     (bool_dict_getitem (dev (tr @ [Ask (inst self) message])),
      tr @ [Ask (inst self) message, Read (inst self) newline])"
  by (simp add: ask_plain lookup_message_def)


lemma set_control_eq:
  "set_control self control dev tr =
     ask self (''(param-set! hw-input-dis '' @ py_str (replace_by_key bool_dict control) @ '')'')
       True dev tr"
  by (simp add: set_control_def)

lemma set_emission_eq:
  "set_emission self control dev tr =
     ask self (''(param-set! laser:en '' @ py_str (replace_by_key bool_dict control) @ '')'')
       True dev tr"
  by (simp add: set_emission_def)

lemma turn_on_eq:
  "turn_on self dev tr = ask self ''(param-set! laser:en #t)'' True dev tr"
  by (simp add: turn_on_def set_emission_eq replace_by_key_True)

lemma turn_off_eq:
  "turn_off self dev tr = ask self ''(param-set! laser:en #f)'' True dev tr"
  by (simp add: turn_off_def set_emission_eq replace_by_key_False)

lemma init_eq:
  "init port dev tr =
     (Inr \<lparr>inst = port\<rparr>,
      tr @ [Open port, Ask port ''(param-set! hw-input-dis #t)'', Read port newline])"
  by (simp add: init_def set_control_eq replace_by_key_True ask_return_error)

text \<open>
  Two runs of \<open>set_control(True)\<close> on a device that always answers the same line: \<open>"0"\<close>
  comes back as the integer, \<open>"00"\<close> as the string.
\<close>

lemma set_control_examples:
  "fst (set_control \<lparr>inst = PyStr ''COM3''\<rparr> (PyBool True) (\<lambda>_. ''0'') []) = Inr (PyInt 0)"
  "fst (set_control \<lparr>inst = PyStr ''COM3''\<rparr> (PyBool True) (\<lambda>_. ''00'') []) = Inr (PyStr ''00'')"
  by (simp_all add: set_control_eq ask_return_error)

subsection \<open>Decimal digits\<close>









subsection \<open>Arguments of any type\<close>

text \<open>On a plain value the general methods are the methods above.\<close>

lemma replace_by_key_any_Plain:
  "replace_by_key_any items (Plain v) = Plain (replace_by_key items v)"
  by (induction items arbitrary: v) auto

lemma set_control_any_Plain: "set_control_any self (Plain v) dev tr = set_control self v dev tr"
  by (simp add: set_control_any_def set_control_def replace_by_key_any_Plain)

lemma set_emission_any_Plain:
  "set_emission_any self (Plain v) dev tr = set_emission self v dev tr"
  by (simp add: set_emission_any_def set_emission_def replace_by_key_any_Plain)

lemma replace_by_key_any_unequal:
  "\<not> arg_eq_bool True v \<Longrightarrow> \<not> arg_eq_bool False v \<Longrightarrow> replace_by_key_any bool_dict v = v"
  by (simp add: bool_dict_def)

lemma format_raises:
  "\<not> arg_eq_bool True v \<Longrightarrow> \<not> arg_eq_bool False v \<Longrightarrow> arg_format v = Inl e \<Longrightarrow>
   set_control_any self v dev tr = (Inl e, tr) \<and> set_emission_any self v dev tr = (Inl e, tr)"
  by (simp add: set_control_any_def set_emission_any_def replace_by_key_any_unequal)


subsection \<open>On the connection\<close>

lemma on_wire_append: "on_wire (tr @ tr') = on_wire tr @ on_wire tr'"
  by (simp add: on_wire_def)

lemma on_wire_ask_read:
  "on_wire (tr @ [Ask p message, Read p t]) =
     on_wire tr @ [Send p message, Recv p None, Recv p (Some t)]"
  by (simp add: on_wire_def)

subsection \<open>The operations\<close>

text \<open>
  C1. Every mutating operation is one \<open>_ask\<close> with \<open>return_error=True\<close> at its command, and
  such an \<open>_ask\<close> never raises: it returns the integer \<open>0\<close> when the line read is exactly
  \<open>"0"\<close>, and the line itself, unchanged, for every other line (\<open>"00"\<close> included).
\<close>
theorem mutating_response_zero_or_verbatim:
  "fst (ask self message True dev tr) =
     Inr (if dev (tr @ [Ask (inst self) message]) = ''0'' then PyInt 0
          else PyStr (dev (tr @ [Ask (inst self) message])))
   \<and> set_control self control dev tr =
       ask self (''(param-set! hw-input-dis '' @ py_str (replace_by_key bool_dict control) @ '')'')
         True dev tr
   \<and> set_emission self control dev tr =
       ask self (''(param-set! laser:en '' @ py_str (replace_by_key bool_dict control) @ '')'')
         True dev tr
   \<and> turn_on self dev tr = ask self ''(param-set! laser:en #t)'' True dev tr
   \<and> turn_off self dev tr = ask self ''(param-set! laser:en #f)'' True dev tr"
  by (simp only: ask_return_error set_control_eq set_emission_eq turn_on_eq turn_off_eq fst_conv
        simp_thms)

text \<open>
  C2. The two directions of the boolean tokens are inverse to each other: the loop over
  \<open>bool_dict\<close> turns \<open>True\<close> into \<open>'#t'\<close> and \<open>False\<close> into \<open>'#f'\<close>, looking the resulting
  token up gives the boolean back, and for each of the two tokens the looked-up boolean is
  turned back into the same token.
\<close>
theorem bool_token_roundtrip:
  "(\<forall>b. \<exists>token. replace_by_key bool_dict (PyBool b) = PyStr token
        \<and> bool_dict_getitem token = Inr b)
   \<and> (\<forall>token. token = TRUE \<or> token = FALSE \<longrightarrow>
        (\<exists>b. bool_dict_getitem token = Inr b
           \<and> replace_by_key bool_dict (PyBool b) = PyStr token))
   \<and> replace_by_key bool_dict (PyBool True) = PyStr ''#t''
   \<and> replace_by_key bool_dict (PyBool False) = PyStr ''#f''"
proof -
  have t: "bool_dict_getitem ''#t'' = Inr True"
    by (simp add: bool_dict_getitem_cases)
  have f: "bool_dict_getitem ''#f'' = Inr False"
    by (simp add: bool_dict_getitem_cases)
  have enc: "\<exists>token. replace_by_key bool_dict (PyBool b) = PyStr token
        \<and> bool_dict_getitem token = Inr b" for b
  proof (cases b)
    case True
    then show ?thesis
      by (intro exI [of _ "''#t''"]) (simp only: t replace_by_key_True simp_thms)
  next
    case False
    then show ?thesis
      by (intro exI [of _ "''#f''"]) (simp only: f replace_by_key_False simp_thms)
  qed
  have dec: "\<exists>b. bool_dict_getitem token = Inr b
           \<and> replace_by_key bool_dict (PyBool b) = PyStr token"
    if "token = TRUE \<or> token = FALSE" for token
  proof -
    from that consider "token = ''#t''" | "token = ''#f''"
      unfolding TRUE_def FALSE_def by blast
    then show ?thesis
    proof cases
      case 1
      then show ?thesis
        by (intro exI [of _ True]) (simp only: t replace_by_key_True simp_thms)
    next
      case 2
      then show ?thesis
        by (intro exI [of _ False]) (simp only: f replace_by_key_False simp_thms)
    qed
  qed
  show ?thesis
    by (intro conjI allI impI enc dec replace_by_key_True replace_by_key_False)
qed

theorem bool_token_roundtrip_witness:
  "(''#f'' = TRUE \<or> ''#f'' = FALSE)
   \<and> (\<exists>b. bool_dict_getitem ''#f'' = Inr b \<and> replace_by_key bool_dict (PyBool b) = PyStr ''#f'')"
proof -
  have h: "''#f'' = TRUE \<or> ''#f'' = FALSE"
    by (simp add: FALSE_def)
  with bool_token_roundtrip show ?thesis
    by blast
qed

text \<open>
  C3. Every public operation other than \<open>close\<close> (and the internal emission setter) makes
  exactly two calls on the instrument, whatever the device answers: one \<open>ask\<close> with its
  command, then one \<open>read\<close> with termination \<open>'\n'\<close>. On the connection that is one command
  sent and two lines read: the reply that \<open>ask\<close> reads and the driver drops, then the line
  ended by \<open>'\n'\<close> that the result comes from.
\<close>
theorem one_ask_one_read_per_operation:
  "snd (is_control_on self dev tr) =
     tr @ [Ask (inst self) ''(param-ref hw-input-dis)'', Read (inst self) [CHR 0x0A]]
   \<and> snd (is_on self dev tr) =
     tr @ [Ask (inst self) ''(param-ref laser:en)'', Read (inst self) [CHR 0x0A]]
   \<and> snd (set_control self control dev tr) =
     tr @ [Ask (inst self)
             (''(param-set! hw-input-dis '' @ py_str (replace_by_key bool_dict control) @ '')''),
           Read (inst self) [CHR 0x0A]]
   \<and> snd (set_emission self control dev tr) =
     tr @ [Ask (inst self)
             (''(param-set! laser:en '' @ py_str (replace_by_key bool_dict control) @ '')''),
           Read (inst self) [CHR 0x0A]]
   \<and> snd (turn_on self dev tr) =
     tr @ [Ask (inst self) ''(param-set! laser:en #t)'', Read (inst self) [CHR 0x0A]]
   \<and> snd (turn_off self dev tr) =
     tr @ [Ask (inst self) ''(param-set! laser:en #f)'', Read (inst self) [CHR 0x0A]]
   \<and> on_wire (snd (is_control_on self dev tr)) =
     on_wire tr @ [Send (inst self) ''(param-ref hw-input-dis)'', Recv (inst self) None,
                   Recv (inst self) (Some [CHR 0x0A])]
   \<and> on_wire (snd (is_on self dev tr)) =
     on_wire tr @ [Send (inst self) ''(param-ref laser:en)'', Recv (inst self) None,
                   Recv (inst self) (Some [CHR 0x0A])]
   \<and> on_wire (snd (set_control self control dev tr)) =
     on_wire tr @
       [Send (inst self)
          (''(param-set! hw-input-dis '' @ py_str (replace_by_key bool_dict control) @ '')''),
        Recv (inst self) None, Recv (inst self) (Some [CHR 0x0A])]
   \<and> on_wire (snd (set_emission self control dev tr)) =
     on_wire tr @
       [Send (inst self)
          (''(param-set! laser:en '' @ py_str (replace_by_key bool_dict control) @ '')''),
        Recv (inst self) None, Recv (inst self) (Some [CHR 0x0A])]
   \<and> on_wire (snd (turn_on self dev tr)) =
     on_wire tr @ [Send (inst self) ''(param-set! laser:en #t)'', Recv (inst self) None,
                   Recv (inst self) (Some [CHR 0x0A])]
   \<and> on_wire (snd (turn_off self dev tr)) =
     on_wire tr @ [Send (inst self) ''(param-set! laser:en #f)'', Recv (inst self) None,
                   Recv (inst self) (Some [CHR 0x0A])]"
  by (simp add: is_control_on_def is_on_def query_eq set_control_eq set_emission_eq turn_on_eq
        turn_off_eq ask_return_error newline_def on_wire_ask_read)

text \<open>
  An operation does not read exactly one line: \<open>is_on\<close>, on a fresh connection to a device
  that answers \<open>'#t'\<close>, sends its command and then reads twice.
\<close>

theorem one_line_read_counterexample:
  "on_wire (snd (is_on \<lparr>inst = PyStr ''COM3''\<rparr> (always ''#t'') [])) =
     [Send (PyStr ''COM3'') ''(param-ref laser:en)'', Recv (PyStr ''COM3'') None,
      Recv (PyStr ''COM3'') (Some [CHR 0x0A])]
   \<and> length (filter is_recv (on_wire (snd (is_on \<lparr>inst = PyStr ''COM3''\<rparr> (always ''#t'') []))))
       \<noteq> 1
   \<and> fst (is_on \<lparr>inst = PyStr ''COM3''\<rparr> (always ''#t'') []) = Inr True"
  by (simp add: is_on_def query_eq newline_def on_wire_def always_def bool_dict_getitem_cases)

text \<open>
  C4. With the port key present, the factory opens the instrument at that port, then makes
  the one exchange of \<open>set_control(True)\<close>, \<open>ask\<close> with \<open>(param-set! hw-input-dis #t)\<close> and
  then \<open>read\<close>, and returns the handle whatever line comes back.
\<close>
theorem construction_sends_one_set_control:
  "params ''femto_ferb_port'' = Some port \<Longrightarrow>
   instrument params dev tr =
     (Inr \<lparr>inst = port\<rparr>,
      tr @ [Open port, Ask port ''(param-set! hw-input-dis #t)'', Read port [CHR 0x0A]])"
  by (simp add: instrument_def init_eq newline_def)

theorem construction_sends_one_set_control_witness:
  "[''femto_ferb_port'' \<mapsto> PyStr ''COM3''] ''femto_ferb_port'' = Some (PyStr ''COM3'')
   \<and> instrument [''femto_ferb_port'' \<mapsto> PyStr ''COM3''] (\<lambda>_. ''12: overtemp'') [] =
       (Inr \<lparr>inst = PyStr ''COM3''\<rparr>,
        [Open (PyStr ''COM3''), Ask (PyStr ''COM3'') ''(param-set! hw-input-dis #t)'',
         Read (PyStr ''COM3'') [CHR 0x0A]])"
proof -
  have h: "[''femto_ferb_port'' \<mapsto> PyStr ''COM3''] ''femto_ferb_port'' = Some (PyStr ''COM3'')"
    by simp
  from construction_sends_one_set_control
    [of "[''femto_ferb_port'' \<mapsto> PyStr ''COM3'']" "PyStr ''COM3''" "\<lambda>_. ''12: overtemp''" "[]"] h
  show ?thesis by simp
qed

text \<open>
  C5. Without the key \<open>femto_ferb_port\<close> the factory raises \<open>InstrumentTypeError\<close> and no call
  reaches the VISA library; with it, one handle is built on the key's value, which is the
  address opened; the outcome depends on no other key.
\<close>
theorem factory_requires_port_key:
  "(params ''femto_ferb_port'' = None \<longrightarrow>
      instrument params dev tr = (Inl InstrumentTypeError, tr))
   \<and> (params ''femto_ferb_port'' = Some port \<longrightarrow>
      instrument params dev tr = init port dev tr
      \<and> fst (instrument params dev tr) = Inr \<lparr>inst = port\<rparr>
      \<and> snd (instrument params dev tr) =
          tr @ [Open port, Ask port ''(param-set! hw-input-dis #t)'', Read port [CHR 0x0A]])
   \<and> (params' ''femto_ferb_port'' = params ''femto_ferb_port'' \<longrightarrow>
      instrument params' dev tr = instrument params dev tr)"
  by (simp add: instrument_def init_eq newline_def)

theorem factory_requires_port_key_witness:
  "[''other'' \<mapsto> PyInt 3] ''femto_ferb_port'' = None
   \<and> instrument [''other'' \<mapsto> PyInt 3] (\<lambda>_. ''0'') [] = (Inl InstrumentTypeError, [])
   \<and> [''femto_ferb_port'' \<mapsto> PyStr ''COM3'', ''other'' \<mapsto> PyInt 3] ''femto_ferb_port''
       = Some (PyStr ''COM3'')
   \<and> fst (instrument [''femto_ferb_port'' \<mapsto> PyStr ''COM3'', ''other'' \<mapsto> PyInt 3]
            (\<lambda>_. ''0'') []) = Inr \<lparr>inst = PyStr ''COM3''\<rparr>
   \<and> [''femto_ferb_port'' \<mapsto> PyStr ''COM3'', ''other'' \<mapsto> PyInt 3] ''femto_ferb_port''
       = [''femto_ferb_port'' \<mapsto> PyStr ''COM3''] ''femto_ferb_port''
   \<and> instrument [''femto_ferb_port'' \<mapsto> PyStr ''COM3'', ''other'' \<mapsto> PyInt 3] (\<lambda>_. ''0'') []
       = instrument [''femto_ferb_port'' \<mapsto> PyStr ''COM3''] (\<lambda>_. ''0'') []"
proof -
  have h1: "[''other'' \<mapsto> PyInt 3] ''femto_ferb_port'' = None"
    by simp
  have h2: "[''femto_ferb_port'' \<mapsto> PyStr ''COM3'', ''other'' \<mapsto> PyInt 3] ''femto_ferb_port''
       = Some (PyStr ''COM3'')"
    by simp
  have h3: "[''femto_ferb_port'' \<mapsto> PyStr ''COM3'', ''other'' \<mapsto> PyInt 3] ''femto_ferb_port''
       = [''femto_ferb_port'' \<mapsto> PyStr ''COM3''] ''femto_ferb_port''"
    by simp
  note a = factory_requires_port_key
    [where params = "[''other'' \<mapsto> PyInt 3]" and dev = "\<lambda>_. ''0''" and tr = "[]",
      THEN conjunct1, THEN mp, OF h1]
  note b = factory_requires_port_key
    [where params = "[''femto_ferb_port'' \<mapsto> PyStr ''COM3'', ''other'' \<mapsto> PyInt 3]"
      and dev = "\<lambda>_. ''0''" and tr = "[]" and port = "PyStr ''COM3''",
      THEN conjunct2, THEN conjunct1, THEN mp, OF h2, THEN conjunct2, THEN conjunct1]
  note c = factory_requires_port_key
    [where params = "[''femto_ferb_port'' \<mapsto> PyStr ''COM3'']"
      and params' = "[''femto_ferb_port'' \<mapsto> PyStr ''COM3'', ''other'' \<mapsto> PyInt 3]"
      and dev = "\<lambda>_. ''0''" and tr = "[]",
      THEN conjunct2, THEN conjunct2, THEN mp, OF h3]
  show ?thesis
    by (intro conjI h1 h2 h3 a b c)
qed

text \<open>
  C6. When the line read is neither \<open>'#t'\<close> nor \<open>'#f'\<close>, \<open>is_control_on\<close> and \<open>is_on\<close> raise
  \<open>KeyError\<close> on that line, after the one exchange and with no further call.
\<close>
theorem query_unrecognized_token_raises:
  "(dev (tr @ [Ask (inst self) ''(param-ref hw-input-dis)'']) \<noteq> ''#t''
      \<and> dev (tr @ [Ask (inst self) ''(param-ref hw-input-dis)'']) \<noteq> ''#f'' \<longrightarrow>
    is_control_on self dev tr =
      (Inl (KeyError (dev (tr @ [Ask (inst self) ''(param-ref hw-input-dis)'']))),
       tr @ [Ask (inst self) ''(param-ref hw-input-dis)'', Read (inst self) [CHR 0x0A]]))
   \<and> (dev (tr @ [Ask (inst self) ''(param-ref laser:en)'']) \<noteq> ''#t''
      \<and> dev (tr @ [Ask (inst self) ''(param-ref laser:en)'']) \<noteq> ''#f'' \<longrightarrow>
    is_on self dev tr =
      (Inl (KeyError (dev (tr @ [Ask (inst self) ''(param-ref laser:en)'']))),
       tr @ [Ask (inst self) ''(param-ref laser:en)'', Read (inst self) [CHR 0x0A]]))"
  by (simp add: is_control_on_def is_on_def query_eq bool_dict_getitem_cases newline_def)

theorem query_unrecognized_token_raises_witness:
  "is_control_on \<lparr>inst = PyStr ''COM3''\<rparr> (\<lambda>_. ''#T'') [] =
      (Inl (KeyError ''#T''),
       [Ask (PyStr ''COM3'') ''(param-ref hw-input-dis)'', Read (PyStr ''COM3'') [CHR 0x0A]])
   \<and> is_on \<lparr>inst = PyStr ''COM3''\<rparr> (\<lambda>_. ''0'') [] =
      (Inl (KeyError ''0''),
       [Ask (PyStr ''COM3'') ''(param-ref laser:en)'', Read (PyStr ''COM3'') [CHR 0x0A]])"
  using query_unrecognized_token_raises
      [where self = "\<lparr>inst = PyStr ''COM3''\<rparr>" and dev = "\<lambda>_. ''#T''" and tr = "[]"]
    query_unrecognized_token_raises
      [where self = "\<lparr>inst = PyStr ''COM3''\<rparr>" and dev = "\<lambda>_. ''0''" and tr = "[]"]
  by simp

text \<open>
  C7. \<open>turn_on\<close> is the emission setter at \<open>True\<close>, which sends
  \<open>(param-set! laser:en #t)\<close>; \<open>turn_off\<close> is the emission setter at \<open>False\<close>, which sends
  \<open>(param-set! laser:en #f)\<close>.
\<close>
theorem turn_on_off_are_set_emission:
  "turn_on self dev tr = set_emission self (PyBool True) dev tr
   \<and> snd (set_emission self (PyBool True) dev tr) =
       tr @ [Ask (inst self) ''(param-set! laser:en #t)'', Read (inst self) [CHR 0x0A]]
   \<and> turn_off self dev tr = set_emission self (PyBool False) dev tr
   \<and> snd (set_emission self (PyBool False) dev tr) =
       tr @ [Ask (inst self) ''(param-set! laser:en #f)'', Read (inst self) [CHR 0x0A]]"
  by (simp add: turn_on_def turn_off_def set_emission_eq replace_by_key_True replace_by_key_False
        ask_return_error newline_def)

text \<open>
  C8. \<open>is_on\<close> sends \<open>(param-ref laser:en)\<close> and returns \<open>True\<close> exactly when the line read is
  \<open>'#t'\<close>, \<open>False\<close> exactly when it is \<open>'#f'\<close>; \<open>is_control_on\<close> does the same with
  \<open>(param-ref hw-input-dis)\<close>.
\<close>
theorem queries_decode_response:
  "snd (is_on self dev tr) =
     tr @ [Ask (inst self) ''(param-ref laser:en)'', Read (inst self) [CHR 0x0A]]
   \<and> (fst (is_on self dev tr) = Inr True) =
       (dev (tr @ [Ask (inst self) ''(param-ref laser:en)'']) = ''#t'')
   \<and> (fst (is_on self dev tr) = Inr False) =
       (dev (tr @ [Ask (inst self) ''(param-ref laser:en)'']) = ''#f'')
   \<and> snd (is_control_on self dev tr) =
     tr @ [Ask (inst self) ''(param-ref hw-input-dis)'', Read (inst self) [CHR 0x0A]]
   \<and> (fst (is_control_on self dev tr) = Inr True) =
       (dev (tr @ [Ask (inst self) ''(param-ref hw-input-dis)'']) = ''#t'')
   \<and> (fst (is_control_on self dev tr) = Inr False) =
       (dev (tr @ [Ask (inst self) ''(param-ref hw-input-dis)'']) = ''#f'')"
  by (simp add: is_control_on_def is_on_def query_eq bool_dict_getitem_cases newline_def)

text \<open>
  C9. \<open>set_control(True)\<close> sends \<open>(param-set! hw-input-dis #t)\<close> and \<open>set_control(False)\<close>
  sends \<open>(param-set! hw-input-dis #f)\<close>.
\<close>
theorem set_control_command:
  "snd (set_control self (PyBool True) dev tr) =
     tr @ [Ask (inst self) ''(param-set! hw-input-dis #t)'', Read (inst self) [CHR 0x0A]]
   \<and> snd (set_control self (PyBool False) dev tr) =
     tr @ [Ask (inst self) ''(param-set! hw-input-dis #f)'', Read (inst self) [CHR 0x0A]]"
  by (simp add: set_control_eq replace_by_key_True replace_by_key_False ask_return_error
        newline_def)




end
